theory Spec2Isabelle
  imports Complex_Main "HOL-Library.AList"
begin

text \<open>
  A model of the Open Horizon MCP server: the resource client that fetches from the
  Exchange (\<open>services/common.ts\<close>), the \<open>exchange\<close> tool that dispatches an action on a
  target to it (\<open>tools/tool-exchange.ts\<close>), and the Express application that binds
  requests to MCP sessions (\<open>server.ts\<close>). Functions keep the names and the branch order
  of the source. The network, the environment, the framework and the MCP SDK are made
  explicit as arguments and state.
\<close>

section \<open>JavaScript values\<close>

text \<open>
  The dispatcher and the resource client are typed \<open>any\<close> in the source: what they pass
  around is either a parsed JSON document or a tool response object. Both are JavaScript
  values. \<open>JError m\<close> is an instance of \<open>Error\<close> whose \<open>message\<close> is \<open>m\<close>; JSON numbers
  are finite doubles and are kept as rationals (the code only tests them for truthiness).
\<close>

datatype jsval =
    JUndefined
  | JNull
  | JBool bool
  | JNum rat
  | JStr string
  | JArr "jsval list"
  | JObj "(string \<times> jsval) list"
  | JError string

text \<open>JavaScript's \<open>ToBoolean\<close>, as used by \<open>!x\<close>, \<open>x && y\<close> and \<open>x || y\<close>.\<close>

fun truthy :: "jsval \<Rightarrow> bool" where
  "truthy JUndefined = False"
| "truthy JNull = False"
| "truthy (JBool b) = b"
| "truthy (JNum n) = (n \<noteq> 0)"
| "truthy (JStr s) = (s \<noteq> [])"
| "truthy (JArr xs) = True"
| "truthy (JObj kvs) = True"
| "truthy (JError m) = True"

text \<open>\<open>typeof v === 'object'\<close>: true of \<open>null\<close>, arrays, objects and \<open>Error\<close> instances.\<close>

fun typeof_object :: "jsval \<Rightarrow> bool" where
  "typeof_object JNull = True"
| "typeof_object (JArr xs) = True"
| "typeof_object (JObj kvs) = True"
| "typeof_object (JError m) = True"
| "typeof_object v = False"

text \<open>
  \<open>k in v\<close> for a property name \<open>k\<close> that neither arrays nor \<open>Error\<close> instances carry
  (the code asks for \<open>'content'\<close> only, behind the truthiness and \<open>typeof\<close> guards).
\<close>

fun has_property :: "string \<Rightarrow> jsval \<Rightarrow> bool" where
  "has_property k (JObj kvs) = (k \<in> set (map fst kvs))"
| "has_property k v = False"

text \<open>An optional string (\<open>string | undefined\<close>) tested by \<open>!s\<close> or \<open>s && ...\<close>.\<close>

fun truthy_str :: "string option \<Rightarrow> bool" where
  "truthy_str None = False"
| "truthy_str (Some s) = (s \<noteq> [])"

text \<open>An optional string interpolated into a template literal: \<open>undefined\<close> prints as such.\<close>

fun tmpl :: "string option \<Rightarrow> string" where
  "tmpl None = ''undefined''"
| "tmpl (Some s) = s"

text \<open>A non-negative integer interpolated into a template literal (decimal digits).\<close>

fun string_of_nat :: "nat \<Rightarrow> string" where
  "string_of_nat n =
     (if n < 10 then [''0123456789'' ! n]
      else string_of_nat (n div 10) @ [''0123456789'' ! (n mod 10)])"

section \<open>Tool responses (models/model.ts)\<close>

text \<open>The object literal \<open>{ content: [{ type: 'text', text: t }] }\<close>.\<close>

definition textResponse :: "string \<Rightarrow> jsval" where
  "textResponse t = JObj [(''content'', JArr [JObj [(''type'', JStr ''text''), (''text'', JStr t)]])]"

text \<open>
  The declared types \<open>ToolContent\<close> and \<open>ToolResponse\<close>, read as predicates on values:
  a \<open>ToolContent\<close> has a \<open>type\<close> that is \<open>"text"\<close> or \<open>"json"\<close> and, when present, a string
  \<open>text\<close>; a \<open>ToolResponse\<close> is an object whose \<open>content\<close> is an array of them.
\<close>

fun isToolContent :: "jsval \<Rightarrow> bool" where
  "isToolContent (JObj kvs) =
     ((case map_of kvs ''type'' of
         Some (JStr t) \<Rightarrow> t = ''text'' \<or> t = ''json''
       | _ \<Rightarrow> False)
      \<and> (case map_of kvs ''text'' of
         None \<Rightarrow> True
       | Some (JStr t) \<Rightarrow> True
       | Some JUndefined \<Rightarrow> True
       | _ \<Rightarrow> False))"
| "isToolContent v = False"

fun isToolResponse :: "jsval \<Rightarrow> bool" where
  "isToolResponse (JObj kvs) =
     (case map_of kvs ''content'' of
        Some (JArr items) \<Rightarrow> list_all isToolContent items
      | _ \<Rightarrow> False)"
| "isToolResponse v = False"

section \<open>Resource client (services/common.ts)\<close>

fun getErrorMessage :: "jsval \<Rightarrow> jsval" where
  "getErrorMessage (JError m) = textResponse (''Error fetching data: '' @ m)"
| "getErrorMessage err = textResponse ''An unknown error occurred.''"

text \<open>
  The remote side. \<open>fetch\<close> either rejects, with an \<open>Error\<close> whose message is given (a
  \<open>TypeError\<close> for DNS failure or a refused connection, an abort error for a timeout), or
  resolves with a response. \<open>response.json()\<close> in turn either rejects with an \<open>Error\<close>
  (\<open>Inl\<close> its message) or yields the parsed body.
\<close>

record http_response =
  status :: nat
  statusText :: string
  json :: "string + jsval"

datatype fetch_outcome = Rejected string | Resolved http_response

type_synonym header_map = "(string \<times> string) list"

text \<open>
  The network as state: how the remote side answers a request, and the requests issued so
  far (most recent last). Every call of \<open>fetch\<close> appends to \<open>issued\<close>.
\<close>

record net =
  remote :: "string \<Rightarrow> header_map \<Rightarrow> fetch_outcome"
  issued :: "(string \<times> header_map) list"

definition fetch :: "string \<Rightarrow> header_map \<Rightarrow> net \<Rightarrow> fetch_outcome \<times> net" where
  "fetch url hs w = (remote w url hs, w\<lparr>issued := issued w @ [(url, hs)]\<rparr>)"

text \<open>\<open>response.ok\<close>: the status is in the range 200 to 299.\<close>

definition ok :: "http_response \<Rightarrow> bool" where
  "ok r = (200 \<le> status r \<and> status r \<le> 299)"

text \<open>\<open>{ "Accept": "application/json", ...headers }\<close>: later keys overwrite earlier ones.\<close>

definition finalHeaders :: "header_map \<Rightarrow> header_map" where
  "finalHeaders hs = fold (\<lambda>(k, v). AList.update k v) hs [(''Accept'', ''application/json'')]"

text \<open>
  A thrown value is a JavaScript value; a computation that may throw returns
  \<open>Inl\<close> of the thrown value or \<open>Inr\<close> of its result.
\<close>

type_synonym 'a throws = "jsval + 'a"

text \<open>
  The body of the \<open>try\<close> block of \<open>makeHttpRequest\<close>. All it can throw is the \<open>Error\<close>
  that \<open>fetch\<close> or \<open>response.json()\<close> rejected with: \<open>Inl m\<close> is that error's message.
\<close>

definition makeHttpRequest_try :: "string \<Rightarrow> header_map \<Rightarrow> net \<Rightarrow> (string + jsval) \<times> net" where
  "makeHttpRequest_try url hs w =
     (case fetch url (finalHeaders hs) w of
        (Rejected m, w') \<Rightarrow> (Inl m, w')
      | (Resolved response, w') \<Rightarrow>
          if \<not> ok response then
            (Inr (getErrorMessage
               (JStr (''Error fetching data: '' @ string_of_nat (status response) @ '' ''
                      @ statusText response))), w')
          else (case json response of
                  Inl m \<Rightarrow> (Inl m, w')
                | Inr v \<Rightarrow> (Inr v, w')))"

text \<open>
  \<open>makeHttpRequest\<close>: the \<open>catch\<close> clause turns the error the \<open>try\<close> block threw into
  \<open>getErrorMessage(`Error fetching data: ${err.message || "Unknown error"}`)\<close>.
\<close>

definition makeHttpRequest :: "string \<Rightarrow> header_map \<Rightarrow> net \<Rightarrow> jsval throws \<times> net" where
  "makeHttpRequest url hs w =
     (case makeHttpRequest_try url hs w of
        (Inl m, w') \<Rightarrow>
          (Inr (getErrorMessage
             (JStr (''Error fetching data: '' @ (if m \<noteq> [] then m else ''Unknown error'')))), w')
      | (Inr v, w') \<Rightarrow> (Inr v, w'))"

section \<open>Action dispatcher (tools/tool-exchange.ts)\<close>

text \<open>
  What the module reads from its surroundings: the three environment variables (each a
  string or \<open>undefined\<close>) and the runtime's \<open>JSON.stringify(_, null, 2)\<close>. Logging is not
  modelled.
\<close>

record env =
  EXCHANGE_URL :: "string option"
  ORG :: "string option"
  EXCHANGE_CREDENTIAL :: "string option"
  JSON_stringify :: "jsval \<Rightarrow> string"

text \<open>\<open>{Authorization: `Basic ${process.env.EXCHANGE_CREDENTIAL}`}\<close>\<close>

definition authorization :: "env \<Rightarrow> header_map" where
  "authorization e = [(''Authorization'', ''Basic '' @ tmpl (EXCHANGE_CREDENTIAL e))]"

text \<open>\<open>`${EXCHANGE_URL}/${ORG}`\<close>, the prefix of every endpoint.\<close>

definition orgUrl :: "env \<Rightarrow> string" where
  "orgUrl e = tmpl (EXCHANGE_URL e) @ ''/'' @ tmpl (ORG e)"

text \<open>
  The tail shared by both branches of \<open>listResources\<close>: a response that is an object
  with a \<open>content\<close> property is returned as it is, anything else is wrapped.
\<close>

definition wrapListResponse :: "env \<Rightarrow> jsval \<Rightarrow> jsval" where
  "wrapListResponse e response =
     (if truthy response \<and> typeof_object response \<and> has_property ''content'' response
      then response
      else textResponse (JSON_stringify e response))"

definition listResources_fetch :: "env \<Rightarrow> string \<Rightarrow> net \<Rightarrow> jsval throws \<times> net" where
  "listResources_fetch e exchangeUrl w =
     (case makeHttpRequest exchangeUrl (authorization e) w of
        (Inl err, w') \<Rightarrow> (Inl err, w')
      | (Inr response, w') \<Rightarrow> (Inr (wrapListResponse e response), w'))"

text \<open>The body of the \<open>try\<close> block of \<open>listResources\<close>.\<close>

definition listResources_try ::
  "env \<Rightarrow> string \<Rightarrow> string option \<Rightarrow> string option \<Rightarrow> net \<Rightarrow> jsval throws \<times> net" where
  "listResources_try e target nm policyType w =
     (if target = ''policy'' then
        (if policyType = Some ''node'' then
           (if \<not> truthy_str nm then
              (Inr (textResponse (''Details for '' @ target @ '' named '' @ tmpl nm)), w)
            else listResources_fetch e
                   (orgUrl e @ ''/business/policies/nodes/'' @ tmpl nm @ ''/policy'') w)
         else listResources_fetch e (orgUrl e @ ''/business/policies'') w)
      else listResources_fetch e
             (if target = ''policy'' then orgUrl e @ ''/business/policies''
              else orgUrl e @ ''/'' @ target @ ''s'') w)"

text \<open>\<open>catch (err) { return getErrorMessage(err); }\<close>, as both handlers with a \<open>try\<close> end.\<close>

definition catch_getErrorMessage :: "jsval throws \<times> net \<Rightarrow> jsval throws \<times> net" where
  "catch_getErrorMessage r =
     (case r of (Inl err, w') \<Rightarrow> (Inr (getErrorMessage err), w') | (Inr v, w') \<Rightarrow> (Inr v, w'))"

definition listResources ::
  "env \<Rightarrow> string \<Rightarrow> string option \<Rightarrow> string option \<Rightarrow> net \<Rightarrow> jsval throws \<times> net" where
  "listResources e target nm policyType w =
     (if target \<notin> set [''service'', ''node'', ''policy''] then
        (Inl (JError (''Invalid target type: '' @ target
                @ ''. Must be one of 'service', 'node', or 'policy'.'')), w)
      else catch_getErrorMessage (listResources_try e target nm policyType w))"

text \<open>The override at the head of \<open>getResourceDetails\<close>.\<close>

definition coerceTarget :: "string option \<Rightarrow> string \<Rightarrow> string" where
  "coerceTarget policyType target =
     (if truthy_str policyType \<and> target \<noteq> ''policy'' then ''policy'' else target)"

definition getResourceDetails_try ::
  "env \<Rightarrow> string \<Rightarrow> string option \<Rightarrow> string option \<Rightarrow> net \<Rightarrow> jsval throws \<times> net" where
  "getResourceDetails_try e target0 nm policyType w =
     (let target = coerceTarget policyType target0 in
      if target = ''policy'' then
        (if policyType = Some ''node'' then
           (if \<not> truthy_str nm then
              (Inr (textResponse (''Details for '' @ target @ '' named '' @ tmpl nm)), w)
            else makeHttpRequest (orgUrl e @ ''/nodes/'' @ tmpl nm @ ''/policy'') (authorization e) w)
         else if policyType = Some ''service'' then
           (if \<not> truthy_str nm then
              (Inr (textResponse (''Details for '' @ tmpl policyType @ '' '' @ target
                      @ '' name is required'')), w)
            else makeHttpRequest (orgUrl e @ ''/business/policies/'' @ tmpl nm) (authorization e) w)
         else if policyType = Some ''deployment'' then
           (if \<not> truthy_str nm then
              (Inr (textResponse (''Details for '' @ tmpl policyType @ '' '' @ target
                      @ '' name is required'')), w)
            else makeHttpRequest (orgUrl e @ ''/services/'' @ tmpl nm @ ''/policy'') (authorization e) w)
         else makeHttpRequest (orgUrl e @ ''/business/policies'') (authorization e) w)
      else if target = ''service'' then
        (if \<not> truthy_str nm then
           (Inr (textResponse (''Details for '' @ target @ '' named '' @ tmpl nm)), w)
         else makeHttpRequest (orgUrl e @ ''/services/'' @ tmpl nm) (authorization e) w)
      else if target = ''node'' then
        makeHttpRequest (orgUrl e @ ''/node-details'') (authorization e) w
      else
        makeHttpRequest
          (if target = ''policy'' then orgUrl e @ ''/business/policies''
           else orgUrl e @ ''/'' @ target @ ''s'') (authorization e) w)"

text \<open>
  Every branch of the \<open>try\<close> block returns, so the \<open>return\<close> that follows the
  \<open>try\<close>/\<open>catch\<close> in the source is never reached.
\<close>

definition getResourceDetails ::
  "env \<Rightarrow> string \<Rightarrow> string option \<Rightarrow> string option \<Rightarrow> net \<Rightarrow> jsval throws \<times> net" where
  "getResourceDetails e target nm policyType w =
     catch_getErrorMessage (getResourceDetails_try e target nm policyType w)"

definition createResource :: "string \<Rightarrow> jsval \<Rightarrow> net \<Rightarrow> jsval throws \<times> net" where
  "createResource target dat w =
     (Inr (textResponse (''Created '' @ target @ '' with provided data'')), w)"

definition deleteResource :: "string \<Rightarrow> string option \<Rightarrow> net \<Rightarrow> jsval throws \<times> net" where
  "deleteResource target nm w =
     (Inr (textResponse (''Deleted '' @ target @ '' named '' @ tmpl nm)), w)"

definition getResourceStatus :: "env \<Rightarrow> string \<Rightarrow> string option \<Rightarrow> net \<Rightarrow> jsval throws \<times> net" where
  "getResourceStatus e target nm w =
     (if target = ''node'' then
        makeHttpRequest (orgUrl e @ ''/nodes/'' @ tmpl nm @ ''/status'') (authorization e) w
      else (Inr (textResponse (''Status for '' @ target @ '' named '' @ tmpl nm)), w))"

text \<open>
  The tool's arguments, with the field types of \<open>toolParamsSchema\<close>; \<open>action\<close> and \<open>target\<close>
  are left as arbitrary strings, since \<open>toolCallback\<close> itself takes \<open>any\<close> and has a
  \<open>default\<close> case. \<open>data\<close> is a JSON value, as the protocol layer delivers it, or
  absent (\<open>JUndefined\<close>). On such a value the \<open>JSON.stringify(data)\<close> in the log line
  at the head of \<open>toolCallback\<close> returns; a \<open>BigInt\<close> or a cyclic object, on which it
  throws, is not a value of this type, and neither is an argument object that is itself
  \<open>null\<close> or \<open>undefined\<close>.
\<close>

record params =
  action :: string
  target :: string
  name :: "string option"
  policyType :: "string option"
  data :: jsval

definition toolCallback :: "env \<Rightarrow> params \<Rightarrow> net \<Rightarrow> jsval throws \<times> net" where
  "toolCallback e p w =
     (if action p = ''list'' then listResources e (target p) (name p) (policyType p) w
      else if action p = ''details'' then
        (if \<not> truthy_str (name p) then
           (Inr (getErrorMessage (JStr ''Name is required for details action'')), w)
         else getResourceDetails e (target p) (name p) (policyType p) w)
      else if action p = ''create'' then
        (if \<not> truthy (data p) then
           (Inr (getErrorMessage (JStr ''Data is required for create action'')), w)
         else createResource (target p) (data p) w)
      else if action p = ''delete'' then
        (if \<not> truthy_str (name p) then
           (Inr (getErrorMessage (JStr ''Name is required for delete action'')), w)
         else deleteResource (target p) (name p) w)
      else if action p = ''status'' then
        (if \<not> truthy_str (name p) then
           (Inr (getErrorMessage (JStr ''Name is required for status action'')), w)
         else getResourceStatus e (target p) (name p) w)
      else (Inr (getErrorMessage (JStr (''Unknown action: '' @ action p))), w))"

section \<open>Request router and session registry (server.ts)\<close>

text \<open>
  A header of an incoming request is a string or an array of strings; a header that is
  not there reads as \<open>undefined\<close> (\<open>None\<close>).
\<close>

datatype header_value = HString string | HArray "string list"

type_synonym IncomingHttpHeaders = "(string \<times> header_value) list"

record request =
  req_method :: string
  path :: string
  headers :: IncomingHttpHeaders
  body :: jsval

text \<open>
  Servers and transports are objects of the MCP SDK and are referred to by handle: a
  transport's handle is its index in \<open>transports\<close>, a server's handle is the number of
  servers created before it.
\<close>

record SessionEntry =
  server :: nat
  transport :: nat
  latestHeaders :: "IncomingHttpHeaders option"

text \<open>
  A transport holds its \<open>sessionId\<close> property, \<open>undefined\<close> until the SDK initialises the
  session, and what the closures handed to it captured: \<open>newSessionId\<close> (returned by
  \<open>sessionIdGenerator\<close>), \<open>server\<close> and \<open>initialHeaders\<close>.
\<close>

record transport_obj =
  sessionId :: "string option"
  cap_newSessionId :: string
  cap_server :: nat
  cap_initialHeaders :: IncomingHttpHeaders

record router =
  sessions :: "string \<rightharpoonup> SessionEntry"
  transports :: "transport_obj list"
  servers :: nat

definition initial :: router where
  "initial = \<lparr>sessions = Map.empty, transports = [], servers = 0\<rparr>"

text \<open>
  What a handler does with the response: it sends a status, headers and a text, or a
  status and a JSON document; or it hands request and response to the transport with
  the given handle (\<open>transport.handleRequest\<close>, which then answers). \<open>NotFound\<close> is the
  answer of Express itself when no route takes the request.
\<close>

datatype reply =
    Reply nat header_map string
  | ReplyJson nat jsval
  | Forwarded nat
  | NotFound

fun statusCode :: "reply \<Rightarrow> nat option" where
  "statusCode (Reply c hs t) = Some c"
| "statusCode (ReplyJson c v) = Some c"
| "statusCode (Forwarded t) = None"
| "statusCode NotFound = Some 404"

text \<open>The conditional that reads the session id off the \<open>mcp-session-id\<close> header.\<close>

fun sessionId_of :: "header_value option \<Rightarrow> string option" where
  "sessionId_of (Some (HString s)) = Some s"
| "sessionId_of (Some (HArray [])) = None"
| "sessionId_of (Some (HArray (x # xs))) = Some x"
| "sessionId_of None = None"

text \<open>\<open>!sessionIdHeader\<close>: the header is absent or the empty string.\<close>

fun falsy_header :: "header_value option \<Rightarrow> bool" where
  "falsy_header None = True"
| "falsy_header (Some (HString s)) = (s = [])"
| "falsy_header (Some (HArray xs)) = False"

text \<open>The two handlers registered first on \<open>MCP_PATH\<close>, for GET and for DELETE.\<close>

definition methodNotAllowed :: "request \<Rightarrow> router \<Rightarrow> reply \<times> router" where
  "methodNotAllowed req st = (Reply 405 [(''Allow'', ''POST'')] ''Method Not Allowed'', st)"



text \<open>
  \<open>sessionId && sessions[sessionId]\<close>: the entry, if the id is non-empty and registered.
  The table holds the entries stored in it; an id that names a property every
  JavaScript object inherits (\<open>constructor\<close>, \<open>toString\<close>) is outside this model.
\<close>

fun lookup_session :: "router \<Rightarrow> string option \<Rightarrow> SessionEntry option" where
  "lookup_session st None = None"
| "lookup_session st (Some sid) = (if sid = [] then None else sessions st sid)"

text \<open>
  The handler of \<open>POST /mcp\<close>. \<open>isInitializeRequest\<close> is the SDK's test of the body and
  \<open>newSessionId\<close> the value \<open>randomUUID()\<close> returns if it is called.
\<close>

definition post_mcp :: "(jsval \<Rightarrow> bool) \<Rightarrow> string \<Rightarrow> request \<Rightarrow> router \<Rightarrow> reply \<times> router" where
  "post_mcp isInitializeRequest newSessionId req st =
     (let sessionIdHeader = map_of (headers req) ''mcp-session-id'' in
      case lookup_session st (sessionId_of sessionIdHeader) of
        Some sessionEntry \<Rightarrow> (Forwarded (transport sessionEntry), st)
      | None \<Rightarrow>
          if falsy_header sessionIdHeader \<and> isInitializeRequest (body req) then
            (let t = length (transports st);
                 s = servers st;
                 tr = \<lparr>sessionId = None, cap_newSessionId = newSessionId, cap_server = s,
                       cap_initialHeaders = headers req\<rparr>
             in (Forwarded t,
                 st\<lparr>sessions := (sessions st)(newSessionId \<mapsto>
                        \<lparr>server = s, transport = t, latestHeaders = None\<rparr>),
                    transports := transports st @ [tr],
                    servers := Suc s\<rparr>))
          else
            (ReplyJson 400
               (JObj [(''jsonrpc'', JStr ''2.0''),
                      (''error'', JObj [(''code'', JNum (- 32000)),
                         (''message'', JStr ''Bad Request: No valid session ID provided'')]),
                      (''id'', JNull)]), st))"

definition handleSessionRequest :: "request \<Rightarrow> router \<Rightarrow> reply \<times> router" where
  "handleSessionRequest req st =
     (let sessionIdHeader = map_of (headers req) ''mcp-session-id'' in
      case lookup_session st (sessionId_of sessionIdHeader) of
        None \<Rightarrow> (Reply 400 [] ''Invalid or missing session ID'', st)
      | Some sessionEntry \<Rightarrow> (Forwarded (transport sessionEntry), st))"

text \<open>
  The route table, in the order of registration. Express hands a request to the first
  route whose method and path match; a later route sees it only if the earlier handler
  calls \<open>next()\<close>, which none of these handlers does. The two \<open>app.use\<close> layers (body
  parser, logging) pass on every request whose body they could read; \<open>body\<close> is the
  parsed body. Paths are compared as they are written. A request that no route takes
  gets the framework's 404.
\<close>

datatype handler = MethodNotAllowed | PostMcp | HandleSessionRequest

definition MCP_PATH :: string where
  "MCP_PATH = ''/mcp''"

definition routes :: "(string \<times> string \<times> handler) list" where
  "routes =
     [(''GET'', MCP_PATH, MethodNotAllowed),
      (''DELETE'', MCP_PATH, MethodNotAllowed),
      (''POST'', MCP_PATH, PostMcp),
      (''GET'', ''/mcp'', HandleSessionRequest),
      (''DELETE'', ''/mcp'', HandleSessionRequest)]"

fun run_handler ::
  "(jsval \<Rightarrow> bool) \<Rightarrow> string \<Rightarrow> handler \<Rightarrow> request \<Rightarrow> router \<Rightarrow> reply \<times> router" where
  "run_handler isInit uuid MethodNotAllowed req st = methodNotAllowed req st"
| "run_handler isInit uuid PostMcp req st = post_mcp isInit uuid req st"
| "run_handler isInit uuid HandleSessionRequest req st = handleSessionRequest req st"

definition app :: "(jsval \<Rightarrow> bool) \<Rightarrow> string \<Rightarrow> request \<Rightarrow> router \<Rightarrow> reply \<times> router" where
  "app isInit uuid req st =
     (case find (\<lambda>(m, p, h). m = req_method req \<and> p = path req) routes of
        None \<Rightarrow> (NotFound, st)
      | Some (m, p, h) \<Rightarrow> run_handler isInit uuid h req st)"







section \<open>Registry invariant\<close>



section \<open>Example inputs\<close>

text \<open>
  A configured environment. Its \<open>JSON_stringify\<close> is right on the documents the examples
  hand to it (\<open>{}\<close>, \<open>[]\<close> and \<open>null\<close>).
\<close>

definition hub :: env where
  "hub = \<lparr>EXCHANGE_URL = Some ''https://hub.example/v1/orgs'', ORG = Some ''acme'',
          EXCHANGE_CREDENTIAL = Some ''dXNlcjpwdw=='',
          JSON_stringify = (\<lambda>v. case v of JObj [] \<Rightarrow> ''{}'' | JArr [] \<Rightarrow> ''[]'' | _ \<Rightarrow> ''null'')\<rparr>"

text \<open>A network on which nothing was requested yet and every request has the given outcome.\<close>

definition answering :: "fetch_outcome \<Rightarrow> net" where
  "answering out = \<lparr>remote = (\<lambda>url hs. out), issued = []\<rparr>"

definition not_found :: fetch_outcome where
  "not_found = Resolved \<lparr>status = 404, statusText = ''Not Found'', json = Inr JNull\<rparr>"

definition unreachable :: fetch_outcome where
  "unreachable = Rejected ''getaddrinfo ENOTFOUND hub.example''"

definition found :: "jsval \<Rightarrow> fetch_outcome" where
  "found v = Resolved \<lparr>status = 200, statusText = ''OK'', json = Inr v\<rparr>"

text \<open>A GET on the MCP path that names the session of \<open>one_session\<close>.\<close>

definition get_events :: request where
  "get_events = \<lparr>req_method = ''GET'', path = ''/mcp'',
     headers = [(''mcp-session-id'', HString ''3f0c'')], body = JUndefined\<rparr>"

definition one_session :: router where
  "one_session =
     \<lparr>sessions = [''3f0c'' \<mapsto> \<lparr>server = 0, transport = 0, latestHeaders = Some []\<rparr>],
      transports = [\<lparr>sessionId = Some ''3f0c'', cap_newSessionId = ''3f0c'', cap_server = 0,
                     cap_initialHeaders = []\<rparr>],
      servers = 1\<rparr>"

text \<open>
  A stand-in for the SDK's \<open>isInitializeRequest\<close>, which parses the body against the
  schema of an \<open>initialize\<close> request: \<open>method\<close> is \<open>"initialize"\<close> and \<open>params\<close> is an object
  with a string \<open>protocolVersion\<close>, an object \<open>capabilities\<close> and a \<open>clientInfo\<close> with
  string \<open>name\<close> and \<open>version\<close>.
\<close>

definition is_initialize :: "jsval \<Rightarrow> bool" where
  "is_initialize b =
     (case b of
        JObj kvs \<Rightarrow>
          map_of kvs ''method'' = Some (JStr ''initialize'')
          \<and> (case map_of kvs ''params'' of
               Some (JObj ps) \<Rightarrow>
                 (case map_of ps ''protocolVersion'' of Some (JStr v) \<Rightarrow> True | _ \<Rightarrow> False)
                 \<and> (case map_of ps ''capabilities'' of Some (JObj cs) \<Rightarrow> True | _ \<Rightarrow> False)
                 \<and> (case map_of ps ''clientInfo'' of
                      Some (JObj ci) \<Rightarrow>
                        (case map_of ci ''name'' of Some (JStr n) \<Rightarrow> True | _ \<Rightarrow> False)
                        \<and> (case map_of ci ''version'' of Some (JStr v) \<Rightarrow> True | _ \<Rightarrow> False)
                    | _ \<Rightarrow> False)
             | _ \<Rightarrow> False)
      | _ \<Rightarrow> False)"




section \<open>The resource client\<close>

lemmas client_defs = makeHttpRequest_def makeHttpRequest_try_def fetch_def ok_def

lemma makeHttpRequest_returns: "\<exists>v. fst (makeHttpRequest url hs w) = Inr v"
  by (simp add: client_defs split: fetch_outcome.split sum.split)

lemma makeHttpRequest_issued:
  "issued (snd (makeHttpRequest url hs w)) = issued w @ [(url, finalHeaders hs)]"
  by (simp add: client_defs split: fetch_outcome.split sum.split)

lemma makeHttpRequest_ok:
  "remote w url (finalHeaders hs) = Resolved r \<Longrightarrow> ok r \<Longrightarrow> json r = Inr b
   \<Longrightarrow> fst (makeHttpRequest url hs w) = Inr b"
  by (simp add: makeHttpRequest_def makeHttpRequest_try_def fetch_def)

lemma makeHttpRequest_failed:
  "remote w url (finalHeaders hs) = Resolved r \<Longrightarrow> \<not> ok r
   \<Longrightarrow> fst (makeHttpRequest url hs w) = Inr (textResponse ''An unknown error occurred.'')"
  by (simp add: makeHttpRequest_def makeHttpRequest_try_def fetch_def)

text \<open>
  Claim C2. On a non-2xx status the client is to return an error response whose text
  holds the status code and status text, and on a transport failure one that carries the
  underlying message. The client does return a response and does not throw, but it hands
  \<open>getErrorMessage\<close> a string, not an \<open>Error\<close>, and \<open>getErrorMessage\<close> answers everything
  that is not an \<open>Error\<close> with the fixed text: for a remote 404 Not Found, and for a failed
  name lookup, the text is "An unknown error occurred." and holds neither the status nor
  the message.
\<close>

theorem makeHttpRequest_drops_status:
  "fst (makeHttpRequest ''https://hub.example/v1/orgs/acme/services'' (authorization hub)
          (answering not_found))
     = Inr (JObj [(''content'', JArr [JObj [(''type'', JStr ''text''),
                    (''text'', JStr ''An unknown error occurred.'')]])])
   \<and> fst (makeHttpRequest ''https://hub.example/v1/orgs/acme/services'' (authorization hub)
          (answering unreachable))
     = Inr (JObj [(''content'', JArr [JObj [(''type'', JStr ''text''),
                    (''text'', JStr ''An unknown error occurred.'')]])])"
  by (simp add: client_defs answering_def not_found_def unreachable_def textResponse_def)

section \<open>The dispatcher\<close>

lemma catch_returns: "\<exists>v. fst (catch_getErrorMessage r) = Inr v"
  by (cases r) (simp add: catch_getErrorMessage_def split: sum.split)

lemma catch_snd: "snd (catch_getErrorMessage r) = snd r"
  by (cases r) (simp add: catch_getErrorMessage_def split: sum.split)

lemma catch_Inr: "catch_getErrorMessage (Inr v, w) = (Inr v, w)"
  by (simp add: catch_getErrorMessage_def)

lemmas list_defs = toolCallback_def listResources_def listResources_try_def
  listResources_fetch_def catch_getErrorMessage_def

text \<open>
  Without a name, \<open>details\<close>, \<open>delete\<close> and \<open>status\<close> return before any handler runs, and
  so does \<open>create\<close> without data: the network is left as it was.
\<close>

lemma toolCallback_missing_no_fetch:
  assumes "(action p \<in> set [''details'', ''delete'', ''status''] \<and> name p = None)
          \<or> (action p = ''create'' \<and> data p = JUndefined)"
  shows "snd (toolCallback e p w) = w"
  using assms by (auto simp add: toolCallback_def)

text \<open>
  Claim C8. For \<open>details\<close>, \<open>delete\<close> and \<open>status\<close> without a name, and for \<open>create\<close>
  without data, the dispatcher is to return a missing-parameter error response before
  any network call. Nothing is requested, but the response does not say what is
  missing: \<open>toolCallback\<close> writes the message ("Name is required for details action",
  "Data is required for create action") and hands it to \<open>getErrorMessage\<close> as a string,
  which answers with its fixed text. The response is the one an unknown action gets.
\<close>

theorem missing_parameter_message_dropped:
  "toolCallback hub \<lparr>action = ''details'', target = ''service'', name = None,
       policyType = None, data = JUndefined\<rparr> (answering not_found)
     = (Inr (JObj [(''content'', JArr [JObj [(''type'', JStr ''text''),
                     (''text'', JStr ''An unknown error occurred.'')]])]), answering not_found)
   \<and> toolCallback hub \<lparr>action = ''create'', target = ''policy'', name = Some ''p1'',
       policyType = Some ''node'', data = JUndefined\<rparr> (answering not_found)
     = (Inr (JObj [(''content'', JArr [JObj [(''type'', JStr ''text''),
                     (''text'', JStr ''An unknown error occurred.'')]])]), answering not_found)
   \<and> toolCallback hub \<lparr>action = ''restart'', target = ''service'', name = Some ''web'',
       policyType = None, data = JUndefined\<rparr> (answering not_found)
     = toolCallback hub \<lparr>action = ''details'', target = ''service'', name = None,
       policyType = None, data = JUndefined\<rparr> (answering not_found)
   \<and> issued (answering not_found) = []"
  by (simp add: toolCallback_def textResponse_def answering_def)

text \<open>
  Claim C6. The claim is that no input makes \<open>toolCallback\<close> throw. \<open>listResources\<close> checks
  the target before it enters its \<open>try\<close> block and throws on a target outside
  \<open>service\<close>, \<open>node\<close>, \<open>policy\<close>; \<open>toolCallback\<close> awaits it without a \<open>try\<close> of its own, so
  the error leaves the dispatcher.
\<close>

theorem list_invalid_target_throws:
  "fst (toolCallback hub \<lparr>action = ''list'', target = ''deployment'', name = None,
          policyType = None, data = JUndefined\<rparr> (answering not_found))
   = Inl (JError ''Invalid target type: deployment. Must be one of 'service', 'node', or 'policy'.'')"
  by (simp add: toolCallback_def listResources_def)

text \<open>
  Claim C6, amended. On arguments of the schema's field types (name and policy type a
  string or absent, data a JSON value or absent; action and target any strings),
  \<open>toolCallback\<close> throws in one case only, action \<open>list\<close> with a target outside
  \<open>service\<close>, \<open>node\<close>, \<open>policy\<close>, where it throws the "Invalid target type" error. In every
  other case, an invalid target with another action and an unknown action included, it
  returns a value. \<open>makeHttpRequest\<close> returns a value on every input and for every
  outcome of the request.
\<close>

theorem toolCallback_throws_only_list_invalid_target:
  "(action p \<noteq> ''list'' \<or> target p \<in> set [''service'', ''node'', ''policy'']
      \<longrightarrow> (\<exists>v. fst (toolCallback e p w) = Inr v))
   \<and> (action p = ''list'' \<and> target p \<notin> set [''service'', ''node'', ''policy'']
      \<longrightarrow> toolCallback e p w
          = (Inl (JError (''Invalid target type: '' @ target p
                @ ''. Must be one of 'service', 'node', or 'policy'.'')), w))
   \<and> (\<exists>v. fst (makeHttpRequest url hs w) = Inr v)"
proof -
  have 1: "action p \<noteq> ''list'' \<longrightarrow> (\<exists>v. fst (toolCallback e p w) = Inr v)"
    by (simp add: toolCallback_def getResourceDetails_def catch_returns
        createResource_def deleteResource_def getResourceStatus_def makeHttpRequest_returns)
  have 2: "target p \<in> set [''service'', ''node'', ''policy'']
      \<longrightarrow> (\<exists>v. fst (toolCallback e p w) = Inr v)"
    by (simp add: toolCallback_def listResources_def getResourceDetails_def catch_returns
        createResource_def deleteResource_def getResourceStatus_def makeHttpRequest_returns)
  have 3: "action p = ''list'' \<and> target p \<notin> set [''service'', ''node'', ''policy'']
      \<longrightarrow> toolCallback e p w
          = (Inl (JError (''Invalid target type: '' @ target p
                @ ''. Must be one of 'service', 'node', or 'policy'.'')), w)"
    by (simp add: toolCallback_def listResources_def)
  from 1 2 3 makeHttpRequest_returns [of url hs w] show ?thesis by blast
qed

theorem toolCallback_throws_only_list_invalid_target_witness:
  "fst (toolCallback hub \<lparr>action = ''delete'', target = ''deployment'', name = Some ''web'',
              policyType = None, data = JUndefined\<rparr> (answering unreachable))
       = Inr (textResponse ''Deleted deployment named web'')
   \<and> fst (toolCallback hub \<lparr>action = ''list'', target = ''node'', name = None,
              policyType = None, data = JUndefined\<rparr> (answering unreachable))
       = Inr (textResponse ''An unknown error occurred.'')
   \<and> fst (toolCallback hub \<lparr>action = ''list'', target = ''nodes'', name = None,
              policyType = None, data = JUndefined\<rparr> (answering unreachable))
       = Inl (JError ''Invalid target type: nodes. Must be one of 'service', 'node', or 'policy'.'')
   \<and> fst (makeHttpRequest ''https://hub.example/v1/orgs/acme/nodes'' []
              (answering unreachable))
       = Inr (textResponse ''An unknown error occurred.'')"
  using toolCallback_throws_only_list_invalid_target [of "\<lparr>action = ''delete'',
              target = ''deployment'', name = Some ''web'', policyType = None,
              data = JUndefined\<rparr>" hub "answering unreachable"
              "''https://hub.example/v1/orgs/acme/nodes''" "[]"]
    toolCallback_throws_only_list_invalid_target [of "\<lparr>action = ''list'', target = ''node'',
              name = None, policyType = None, data = JUndefined\<rparr>" hub "answering unreachable"
              "''https://hub.example/v1/orgs/acme/nodes''" "[]"]
    toolCallback_throws_only_list_invalid_target [of "\<lparr>action = ''list'', target = ''nodes'',
              name = None, policyType = None, data = JUndefined\<rparr>" hub "answering unreachable"
              "''https://hub.example/v1/orgs/acme/nodes''" "[]"]
  by (simp add: toolCallback_def deleteResource_def list_defs client_defs answering_def
      unreachable_def wrapListResponse_def textResponse_def)

text \<open>
  Claim C3. Every result of the dispatcher is to have the shape \<open>{content: [...]}\<close>, a
  successful fetch in \<open>getResourceDetails\<close> and \<open>getResourceStatus\<close> included.
  \<open>listResources\<close> wraps a fetched document, but these two return what \<open>makeHttpRequest\<close>
  returned: for the details of service \<open>web\<close>, and for the status of node \<open>edge-1\<close>, with
  the remote side answering 200 and \<open>{"services": {}}\<close>, the result is that document,
  which has no \<open>content\<close> property.
\<close>

theorem details_returns_raw_json:
  "fst (toolCallback hub \<lparr>action = ''details'', target = ''service'', name = Some ''web'',
          policyType = None, data = JUndefined\<rparr> (answering (found (JObj [(''services'', JObj [])]))))
     = Inr (JObj [(''services'', JObj [])])
   \<and> fst (toolCallback hub \<lparr>action = ''status'', target = ''node'', name = Some ''edge-1'',
          policyType = None, data = JUndefined\<rparr> (answering (found (JObj [(''services'', JObj [])]))))
     = Inr (JObj [(''services'', JObj [])])
   \<and> \<not> has_property ''content'' (JObj [(''services'', JObj [])])
   \<and> \<not> isToolResponse (JObj [(''services'', JObj [])])
   \<and> isToolResponse (textResponse ''An unknown error occurred.'')"
  by (simp add: toolCallback_def getResourceDetails_def getResourceDetails_try_def coerceTarget_def
      getResourceStatus_def catch_getErrorMessage_def client_defs answering_def found_def
      textResponse_def)

text \<open>
  Claim C5. The claim is that for every action a policy type given with another target
  makes the dispatcher behave as for target \<open>policy\<close>. \<open>listResources\<close> has no such
  override: listing with target \<open>service\<close> and policy type \<open>node\<close> fetches the services,
  while the same request with target \<open>policy\<close> returns the placeholder without a fetch.
\<close>

theorem list_target_not_coerced:
  "toolCallback hub \<lparr>action = ''list'', target = ''service'', name = None,
       policyType = Some ''node'', data = JUndefined\<rparr> (answering (found (JObj [])))
   \<noteq> toolCallback hub \<lparr>action = ''list'', target = ''policy'', name = None,
       policyType = Some ''node'', data = JUndefined\<rparr> (answering (found (JObj [])))"
  by (simp add: list_defs client_defs answering_def found_def hub_def wrapListResponse_def
      textResponse_def)

text \<open>
  Claim C5, amended. For action \<open>details\<close>, a request that carries a (non-empty) policy
  type is handled exactly as the same request with target \<open>policy\<close>, whatever target it
  names: the target is overridden before routing. The override is idempotent.
\<close>

theorem details_target_coerced:
  assumes "action p = ''details''" and "truthy_str (policyType p)"
  shows "toolCallback e p w = toolCallback e (p\<lparr>target := ''policy''\<rparr>) w
       \<and> coerceTarget (policyType p) (target p) = ''policy''
       \<and> coerceTarget (policyType p) (coerceTarget (policyType p) (target p))
           = coerceTarget (policyType p) (target p)"
  using assms
  by (simp add: toolCallback_def getResourceDetails_def getResourceDetails_try_def coerceTarget_def)

theorem details_target_coerced_witness:
  "''details'' = ''details'' \<and> truthy_str (Some ''node'')
   \<and> toolCallback hub \<lparr>action = ''details'', target = ''service'', name = Some ''edge-1'',
        policyType = Some ''node'', data = JUndefined\<rparr> (answering (found (JObj [])))
     = toolCallback hub \<lparr>action = ''details'', target = ''policy'', name = Some ''edge-1'',
        policyType = Some ''node'', data = JUndefined\<rparr> (answering (found (JObj [])))
   \<and> issued (snd (toolCallback hub \<lparr>action = ''details'', target = ''service'',
        name = Some ''edge-1'', policyType = Some ''node'', data = JUndefined\<rparr>
        (answering (found (JObj [])))))
     = [(''https://hub.example/v1/orgs/acme/nodes/edge-1/policy'',
         [(''Accept'', ''application/json''), (''Authorization'', ''Basic dXNlcjpwdw=='')])]"
  using details_target_coerced [of "\<lparr>action = ''details'', target = ''service'',
        name = Some ''edge-1'', policyType = Some ''node'', data = JUndefined\<rparr>" hub
        "answering (found (JObj []))"]
  by (simp add: toolCallback_def getResourceDetails_def getResourceDetails_try_def coerceTarget_def
      catch_getErrorMessage_def client_defs answering_def found_def hub_def orgUrl_def
      authorization_def finalHeaders_def)

subsection \<open>Listing\<close>

lemma listResources_fetch_issued:
  "issued (snd (listResources_fetch e url w)) = issued w @ [(url, finalHeaders (authorization e))]"
proof (cases "makeHttpRequest url (authorization e) w")
  case (Pair res w')
  with makeHttpRequest_issued [of url "authorization e" w] show ?thesis
    by (cases res) (simp_all add: listResources_fetch_def)
qed

lemma listResources_fetch_fst:
  "fst (makeHttpRequest url (authorization e) w) = Inr v
   \<Longrightarrow> fst (listResources_fetch e url w) = Inr (wrapListResponse e v)"
  by (cases "makeHttpRequest url (authorization e) w") (simp add: listResources_fetch_def)

lemma listResources_fetch_ok:
  assumes "\<forall>url. remote w url (finalHeaders (authorization e)) = Resolved r"
    and "ok r" and "json r = Inr b"
  shows "fst (listResources_fetch e url w) = Inr (wrapListResponse e b)"
  using makeHttpRequest_ok [of w url "authorization e" r b] assms
  by (simp add: listResources_fetch_fst)

lemma listResources_fetch_failed:
  assumes "\<forall>url. remote w url (finalHeaders (authorization e)) = Resolved r" and "\<not> ok r"
  shows "fst (listResources_fetch e url w) = Inr (textResponse ''An unknown error occurred.'')"
  using makeHttpRequest_failed [of w url "authorization e" r] assms
  by (simp add: listResources_fetch_fst) (simp add: wrapListResponse_def textResponse_def)

text \<open>Unless it returns the placeholder, \<open>listResources\<close> returns what one fetch gives.\<close>

lemma listResources_fetched:
  assumes "tgt \<in> set [''service'', ''node'', ''policy'']"
    and "\<not> (tgt = ''policy'' \<and> pt = Some ''node'' \<and> \<not> truthy_str nm)"
  shows "\<exists>url. fst (listResources e tgt nm pt w) = fst (listResources_fetch e url w)"
proof -
  have "\<exists>url. listResources_try e tgt nm pt w = listResources_fetch e url w"
  proof (cases "tgt = ''policy''")
    case False
    then have "listResources_try e tgt nm pt w
        = listResources_fetch e (orgUrl e @ ''/'' @ tgt @ ''s'') w"
      by (simp add: listResources_try_def)
    then show ?thesis ..
  next
    case True
    show ?thesis
    proof (cases "pt = Some ''node''")
      case False
      with True have "listResources_try e tgt nm pt w
          = listResources_fetch e (orgUrl e @ ''/business/policies'') w"
        by (simp add: listResources_try_def)
      then show ?thesis ..
    next
      case node: True
      with True assms(2) have "truthy_str nm" by blast
      with True node have "listResources_try e tgt nm pt w
          = listResources_fetch e (orgUrl e @ ''/business/policies/nodes/'' @ tmpl nm @ ''/policy'') w"
        by (simp add: listResources_try_def)
      then show ?thesis ..
    qed
  qed
  then obtain url where u: "listResources_try e tgt nm pt w = listResources_fetch e url w" ..
  obtain v where v: "fst (listResources_fetch e url w) = Inr v"
    using makeHttpRequest_returns [of url "authorization e" w]
    by (auto dest: listResources_fetch_fst)
  have "fst (listResources e tgt nm pt w) = fst (listResources_fetch e url w)"
    using assms(1) u v
    by (cases "listResources_fetch e url w") (simp add: listResources_def catch_getErrorMessage_def)
  then show ?thesis ..
qed

text \<open>
  Claim C7. The claim is that for action \<open>list\<close> and target \<open>policy\<close> every case other than
  policy type \<open>node\<close> with a name fetches the full policy collection, policy type \<open>node\<close>
  with the name absent included. In that case \<open>listResources\<close> returns a placeholder and
  fetches nothing.
\<close>

theorem list_node_policy_without_name_no_fetch:
  "fst (toolCallback hub \<lparr>action = ''list'', target = ''policy'', name = None,
          policyType = Some ''node'', data = JUndefined\<rparr> (answering (found (JObj []))))
     = Inr (textResponse ''Details for policy named undefined'')
   \<and> issued (snd (toolCallback hub \<lparr>action = ''list'', target = ''policy'', name = None,
          policyType = Some ''node'', data = JUndefined\<rparr> (answering (found (JObj []))))) = []"
  by (simp add: list_defs answering_def)

text \<open>
  Claim C7, amended. For action \<open>list\<close> with target \<open>policy\<close>: with policy type \<open>node\<close> and
  a name, one request goes to the node-policy endpoint of that name; with policy type
  \<open>node\<close> and no name, a placeholder response is returned and nothing is requested; with
  any other policy type or none, one request goes to the policy collection. For target
  \<open>node\<close> or \<open>service\<close>, one request goes to the plural collection of that target. All
  endpoints are under the configured base URL and organization.
\<close>

theorem list_endpoints:
  assumes "action p = ''list''"
  shows "(target p = ''policy'' \<and> policyType p = Some ''node'' \<and> truthy_str (name p) \<longrightarrow>
            issued (snd (toolCallback e p w)) = issued w @
              [(orgUrl e @ ''/business/policies/nodes/'' @ tmpl (name p) @ ''/policy'',
                finalHeaders (authorization e))])
       \<and> (target p = ''policy'' \<and> policyType p = Some ''node'' \<and> \<not> truthy_str (name p) \<longrightarrow>
            toolCallback e p w
              = (Inr (textResponse (''Details for policy named '' @ tmpl (name p))), w))
       \<and> (target p = ''policy'' \<and> policyType p \<noteq> Some ''node'' \<longrightarrow>
            issued (snd (toolCallback e p w)) = issued w @
              [(orgUrl e @ ''/business/policies'', finalHeaders (authorization e))])
       \<and> (target p = ''node'' \<or> target p = ''service'' \<longrightarrow>
            issued (snd (toolCallback e p w)) = issued w @
              [(orgUrl e @ ''/'' @ target p @ ''s'', finalHeaders (authorization e))])"
  using assms
  by (auto simp: toolCallback_def listResources_def listResources_try_def catch_snd
      listResources_fetch_issued catch_Inr)

theorem list_endpoints_witness:
  "issued (snd (toolCallback hub \<lparr>action = ''list'', target = ''policy'', name = Some ''edge-1'',
          policyType = Some ''node'', data = JUndefined\<rparr> (answering not_found)))
     = [(''https://hub.example/v1/orgs/acme/business/policies/nodes/edge-1/policy'',
         [(''Accept'', ''application/json''), (''Authorization'', ''Basic dXNlcjpwdw=='')])]
   \<and> toolCallback hub \<lparr>action = ''list'', target = ''policy'', name = None,
          policyType = Some ''node'', data = JUndefined\<rparr> (answering not_found)
     = (Inr (textResponse ''Details for policy named undefined''), answering not_found)
   \<and> issued (snd (toolCallback hub \<lparr>action = ''list'', target = ''policy'', name = None,
          policyType = Some ''deployment'', data = JUndefined\<rparr> (answering not_found)))
     = [(''https://hub.example/v1/orgs/acme/business/policies'',
         [(''Accept'', ''application/json''), (''Authorization'', ''Basic dXNlcjpwdw=='')])]
   \<and> issued (snd (toolCallback hub \<lparr>action = ''list'', target = ''service'', name = None,
          policyType = None, data = JUndefined\<rparr> (answering not_found)))
     = [(''https://hub.example/v1/orgs/acme/services'',
         [(''Accept'', ''application/json''), (''Authorization'', ''Basic dXNlcjpwdw=='')])]"
  using list_endpoints [of "\<lparr>action = ''list'', target = ''policy'', name = Some ''edge-1'',
          policyType = Some ''node'', data = JUndefined\<rparr>" hub "answering not_found"]
    list_endpoints [of "\<lparr>action = ''list'', target = ''policy'', name = None,
          policyType = Some ''node'', data = JUndefined\<rparr>" hub "answering not_found"]
    list_endpoints [of "\<lparr>action = ''list'', target = ''policy'', name = None,
          policyType = Some ''deployment'', data = JUndefined\<rparr>" hub "answering not_found"]
    list_endpoints [of "\<lparr>action = ''list'', target = ''service'', name = None,
          policyType = None, data = JUndefined\<rparr>" hub "answering not_found"]
  by (simp add: hub_def orgUrl_def authorization_def finalHeaders_def answering_def)

text \<open>
  Claim C10. In \<open>listResources\<close>, when the remote side answers 2xx with a JSON body: a
  body with a top-level \<open>content\<close> property is returned as it is, any other body is
  wrapped in a text response. So a 2xx body that equals the client's error response
  gives the same result as a failed request does.
\<close>

theorem listResources_content_passthrough:
  assumes t: "tgt \<in> set [''service'', ''node'', ''policy'']"
    and fetched: "\<not> (tgt = ''policy'' \<and> pt = Some ''node'' \<and> \<not> truthy_str nm)"
    and answer: "\<forall>url. remote w url (finalHeaders (authorization e)) = Resolved r"
    and ok: "ok r" and body: "json r = Inr b"
  shows "(has_property ''content'' b \<longrightarrow> fst (listResources e tgt nm pt w) = Inr b)
       \<and> (\<not> has_property ''content'' b \<longrightarrow>
            fst (listResources e tgt nm pt w) = Inr (textResponse (JSON_stringify e b)))
       \<and> (\<not> ok r' \<and> b = textResponse ''An unknown error occurred.'' \<longrightarrow>
            fst (listResources e tgt nm pt w)
              = fst (listResources e tgt nm pt (w\<lparr>remote := (\<lambda>url hs. Resolved r')\<rparr>)))"
proof -
  obtain url where u: "fst (listResources e tgt nm pt w) = fst (listResources_fetch e url w)"
    using listResources_fetched [OF t fetched] by blast
  have res: "fst (listResources e tgt nm pt w) = Inr (wrapListResponse e b)"
    using u listResources_fetch_ok [OF answer ok body] by simp
  have has: "has_property ''content'' b \<Longrightarrow> truthy b \<and> typeof_object b"
    by (cases b) simp_all
  have 1: "has_property ''content'' b \<longrightarrow> fst (listResources e tgt nm pt w) = Inr b"
    using res has by (simp add: wrapListResponse_def)
  have 2: "\<not> has_property ''content'' b \<longrightarrow>
            fst (listResources e tgt nm pt w) = Inr (textResponse (JSON_stringify e b))"
    using res by (simp add: wrapListResponse_def)
  have 3: "\<not> ok r' \<and> b = textResponse ''An unknown error occurred.'' \<longrightarrow>
            fst (listResources e tgt nm pt w)
              = fst (listResources e tgt nm pt (w\<lparr>remote := (\<lambda>url hs. Resolved r')\<rparr>))"
  proof
    assume a: "\<not> ok r' \<and> b = textResponse ''An unknown error occurred.''"
    let ?w' = "w\<lparr>remote := (\<lambda>url hs. Resolved r')\<rparr>"
    obtain url' where
      u': "fst (listResources e tgt nm pt ?w') = fst (listResources_fetch e url' ?w')"
      using listResources_fetched [OF t fetched] by blast
    have "fst (listResources_fetch e url' ?w') = Inr (textResponse ''An unknown error occurred.'')"
      using a by (intro listResources_fetch_failed [where r = r']) simp_all
    moreover have "fst (listResources e tgt nm pt w) = Inr b"
      using 1 a by (simp add: textResponse_def)
    ultimately show "fst (listResources e tgt nm pt w) = fst (listResources e tgt nm pt ?w')"
      using u' a by simp
  qed
  from 1 2 3 show ?thesis by blast
qed

lemma remote_answering: "remote (answering out) url hs = out"
  by (simp add: answering_def)

lemma answering_remote: "(answering out)\<lparr>remote := (\<lambda>url hs. out')\<rparr> = answering out'"
  by (simp add: answering_def)

lemma hub_stringify: "JSON_stringify hub (JObj []) = ''{}''"
  by (simp add: hub_def)

theorem listResources_content_passthrough_witness:
  "''policy'' \<in> set [''service'', ''node'', ''policy'']
   \<and> \<not> (''policy'' = ''policy'' \<and> (None :: string option) = Some ''node'' \<and> \<not> truthy_str None)
   \<and> (\<forall>url. remote (answering (found (textResponse ''An unknown error occurred.''))) url
          (finalHeaders (authorization hub))
        = Resolved \<lparr>status = 200, statusText = ''OK'',
            json = Inr (textResponse ''An unknown error occurred.'')\<rparr>)
   \<and> ok \<lparr>status = 200, statusText = ''OK'',
            json = Inr (textResponse ''An unknown error occurred.'')\<rparr>
   \<and> has_property ''content'' (textResponse ''An unknown error occurred.'')
   \<and> fst (listResources hub ''policy'' None None
            (answering (found (textResponse ''An unknown error occurred.''))))
       = Inr (textResponse ''An unknown error occurred.'')
   \<and> \<not> ok \<lparr>status = 404, statusText = ''Not Found'', json = Inr JNull\<rparr>
   \<and> fst (listResources hub ''policy'' None None
            (answering (found (textResponse ''An unknown error occurred.''))))
       = fst (listResources hub ''policy'' None None (answering not_found))
   \<and> ''service'' \<in> set [''service'', ''node'', ''policy'']
   \<and> (\<forall>url. remote (answering (found (JObj []))) url (finalHeaders (authorization hub))
        = Resolved \<lparr>status = 200, statusText = ''OK'', json = Inr (JObj [])\<rparr>)
   \<and> \<not> has_property ''content'' (JObj [])
   \<and> fst (listResources hub ''service'' None None (answering (found (JObj []))))
       = Inr (textResponse ''{}'')"
  using listResources_content_passthrough [of "''policy''" None None
      "answering (found (textResponse ''An unknown error occurred.''))" hub
      "\<lparr>status = 200, statusText = ''OK'',
        json = Inr (textResponse ''An unknown error occurred.'')\<rparr>"
      "textResponse ''An unknown error occurred.''"
      "\<lparr>status = 404, statusText = ''Not Found'', json = Inr JNull\<rparr>"]
    listResources_content_passthrough [of "''service''" None None
      "answering (found (JObj []))" hub
      "\<lparr>status = 200, statusText = ''OK'', json = Inr (JObj [])\<rparr>"
      "JObj []" "\<lparr>status = 404, statusText = ''Not Found'', json = Inr JNull\<rparr>"]
  by (auto simp add: remote_answering answering_remote found_def not_found_def ok_def
      textResponse_def hub_stringify)

section \<open>The router\<close>

lemmas app_defs = app_def routes_def MCP_PATH_def methodNotAllowed_def handleSessionRequest_def

text \<open>
  Claim C1. A GET or DELETE on the MCP path that names a registered session is to reach
  that session's transport, and one that names none is to be answered 400, the registry
  unchanged. \<open>handleSessionRequest\<close> does this, but it is registered after the two
  handlers that answer every GET and every DELETE on the same path with 405, so no
  request reaches it: with session \<open>3f0c\<close> registered, a GET and a DELETE that name it,
  and a GET without the header, are all answered 405 (the registry is unchanged), while
  \<open>handleSessionRequest\<close> itself would hand the first to transport 0.
\<close>

theorem get_delete_mcp_answer_405:
  "app is_initialize ''9b1d'' get_events one_session
      = (Reply 405 [(''Allow'', ''POST'')] ''Method Not Allowed'', one_session)
   \<and> app is_initialize ''9b1d'' (get_events\<lparr>req_method := ''DELETE''\<rparr>) one_session
      = (Reply 405 [(''Allow'', ''POST'')] ''Method Not Allowed'', one_session)
   \<and> app is_initialize ''9b1d'' (get_events\<lparr>headers := []\<rparr>) one_session
      = (Reply 405 [(''Allow'', ''POST'')] ''Method Not Allowed'', one_session)
   \<and> handleSessionRequest get_events one_session = (Forwarded 0, one_session)
   \<and> handleSessionRequest (get_events\<lparr>headers := []\<rparr>) one_session
      = (Reply 400 [] ''Invalid or missing session ID'', one_session)"
  by (simp add: app_defs get_events_def one_session_def)

text \<open>
  Claim C4. A GET on \<open>/health\<close> is to be answered 200. The application registers routes
  on the MCP path only, so the request falls through to the framework's answer, 404.
\<close>

theorem health_not_registered:
  "app is_initialize ''9b1d''
      \<lparr>req_method = ''GET'', path = ''/health'', headers = [], body = JUndefined\<rparr> initial
     = (NotFound, initial)
   \<and> statusCode NotFound = Some 404"
  by (simp add: app_defs)

section \<open>The session registry\<close>




















end
